theory Spec2Isabelle
  imports Main "HOL-Library.Word"
begin

unbundle bit_operations_syntax

section \<open>Data model of tplink-safeloader.c\<close>

text \<open>
  Bytes (\<^verbatim>\<open>uint8_t\<close>, \<^verbatim>\<open>char\<close> in buffers) are 8-bit words, \<^verbatim>\<open>uint32_t\<close> is a
  32-bit word. A C string is the list of its characters before the terminating NUL;
  \<open>cstr\<close> gives the bytes it occupies in a buffer. A \<^verbatim>\<open>size_t\<close> that counts the bytes
  of an allocated object is a natural number.
\<close>

type_synonym u8 = "8 word"
type_synonym u32 = "32 word"
type_synonym u64 = "64 word"

definition cstr :: "string \<Rightarrow> u8 list" where
  "cstr s = map of_char s"

text \<open>
  The ways a run ends without a result: \<^verbatim>\<open>error(1, ...)\<close> prints a message and
  exits (\<open>Exit\<close> with the message's format string), a failed \<^verbatim>\<open>assert\<close> aborts, and
  an access outside an allocated object is undefined behaviour in C (\<open>Undefined\<close>).
\<close>

datatype error = Exit string | Abort | Undefined

text \<open>\<^verbatim>\<open>struct image_partition_entry\<close> and \<^verbatim>\<open>struct flash_partition_entry\<close>.
  Arrays of them end at the first entry whose name is NULL; an array is the list of the
  entries before that one.\<close>

record image_partition_entry =
  ip_name :: string
  ip_size :: nat
  ip_data :: "u8 list"

record flash_partition_entry =
  fp_name :: string
  fp_base :: u32
  fp_size :: u32

text \<open>\<^verbatim>\<open>enum partition_trail_value\<close>: 0x00 to 0xff name the padding byte, values
  from 0x100 mean other behaviour.\<close>

type_synonym partition_trail_value = int

definition PART_TRAIL_00 :: partition_trail_value where "PART_TRAIL_00 = 0x00"
definition PART_TRAIL_FF :: partition_trail_value where "PART_TRAIL_FF = 0xff"
definition PART_TRAIL_MAX :: partition_trail_value where "PART_TRAIL_MAX = 0xff"
definition PART_TRAIL_NONE :: partition_trail_value where "PART_TRAIL_NONE = 0x100"

subsection \<open>Buffers\<close>

text \<open>\<^verbatim>\<open>malloc\<close> returns a block whose content is not initialised: byte \<open>i\<close> of a
  fresh block is \<open>junk i\<close>, for a \<open>junk\<close> the program does not control. Allocation
  itself is taken to succeed.\<close>

definition malloc :: "(nat \<Rightarrow> u8) \<Rightarrow> nat \<Rightarrow> u8 list" where
  "malloc junk n = map junk [0..<n]"

text \<open>\<^verbatim>\<open>memcpy(buf + off, src, length src)\<close>, and every other write of a byte
  sequence at an offset of a buffer. Writing past the end of the buffer is undefined.\<close>

definition memcpy :: "u8 list \<Rightarrow> nat \<Rightarrow> u8 list \<Rightarrow> error + u8 list" where
  "memcpy buf off src =
     (if off + length src \<le> length buf
      then Inr (take off buf @ src @ drop (off + length src) buf)
      else Inl Undefined)"

text \<open>\<^verbatim>\<open>put32\<close> stores a \<^verbatim>\<open>uint32_t\<close> as big endian; these are the four bytes
  it writes. Storing \<^verbatim>\<open>htonl(val)\<close> into a \<^verbatim>\<open>uint32_t\<close> field writes the same bytes.\<close>

definition put32 :: "u32 \<Rightarrow> u8 list" where
  "put32 val = [ucast (drop_bit 24 val), ucast (drop_bit 16 val), ucast (drop_bit 8 val), ucast val]"

section \<open>Meta partitions\<close>

definition meta_partition_should_pad :: "partition_trail_value \<Rightarrow> bool" where
  "meta_partition_should_pad pv = (pv \<ge> 0 \<and> pv \<le> PART_TRAIL_MAX)"

text \<open>\<^verbatim>\<open>init_meta_partition_entry\<close>. \<open>total_len\<close> is a \<^verbatim>\<open>uint32_t\<close> and
  wraps. \<open>data\<close> is \<open>None\<close> for a NULL pointer; otherwise \<open>data_len\<close> bytes are read
  from it.\<close>

definition init_meta_partition_entry ::
  "(nat \<Rightarrow> u8) \<Rightarrow> string \<Rightarrow> u8 list option \<Rightarrow> u32 \<Rightarrow> partition_trail_value
     \<Rightarrow> error + image_partition_entry" where
  "init_meta_partition_entry junk name data data_len pad_value =
     (let total_len = (8 :: u32) + data_len;
          total_len = (if meta_partition_should_pad pad_value then total_len + 1 else total_len);
          buf = malloc junk (unat total_len)
      in case memcpy buf 0 (put32 data_len @ put32 0) of
           Inl e \<Rightarrow> Inl e
         | Inr buf \<Rightarrow>
      (case (case data of
               None \<Rightarrow> Inr buf
             | Some d \<Rightarrow> if unat data_len \<le> length d
                         then memcpy buf 8 (take (unat data_len) d)
                         else Inl Undefined) of
           Inl e \<Rightarrow> Inl e
         | Inr buf \<Rightarrow>
      (case (if meta_partition_should_pad pad_value
             then memcpy buf (unat (total_len - 1)) [word_of_int pad_value]
             else Inr buf) of
           Inl e \<Rightarrow> Inl e
         | Inr buf \<Rightarrow>
             Inr \<lparr>ip_name = name, ip_size = unat total_len, ip_data = buf\<rparr>)))"


section \<open>Device profiles\<close>

text \<open>\<^verbatim>\<open>struct factory_partition_names\<close> (a NULL name is \<open>None\<close>), the soft-version
  setting and \<^verbatim>\<open>struct device_info\<close>. The partition array of a profile has
  \<open>MAX_PARTITIONS + 1\<close> elements, so a terminated array holds at most \<open>MAX_PARTITIONS\<close>
  entries.\<close>

record factory_partition_names =
  pn_partition_table :: "string option"
  pn_soft_ver :: "string option"
  pn_os_image :: "string option"
  pn_support_list :: "string option"
  pn_file_system :: "string option"
  pn_extra_para :: "string option"

datatype soft_ver = SOFT_VER_NUMERIC u8 u8 u8 | SOFT_VER_TEXT string

record device_info =
  di_id :: string
  di_vendor :: "string option"
  di_support_list :: string
  di_part_trail :: partition_trail_value
  di_soft_ver :: soft_ver
  di_soft_ver_compat_level :: u32
  di_partitions :: "flash_partition_entry list"
  di_first_sysupgrade_partition :: string
  di_last_sysupgrade_partition :: string
  di_partition_names :: factory_partition_names

definition MAX_PARTITIONS :: nat where "MAX_PARTITIONS = 32"

definition SAFELOADER_PREAMBLE_SIZE :: nat where "SAFELOADER_PREAMBLE_SIZE = 0x14"
definition SAFELOADER_HEADER_SIZE :: nat where "SAFELOADER_HEADER_SIZE = 0x1000"
definition SAFELOADER_PAYLOAD_OFFSET :: nat where
  "SAFELOADER_PAYLOAD_OFFSET = SAFELOADER_PREAMBLE_SIZE + SAFELOADER_HEADER_SIZE"
definition SAFELOADER_QNEW_HEADER_SIZE :: nat where "SAFELOADER_QNEW_HEADER_SIZE = 0x3C"
definition SAFELOADER_QNEW_PAYLOAD_OFFSET :: nat where
  "SAFELOADER_QNEW_PAYLOAD_OFFSET =
     SAFELOADER_PREAMBLE_SIZE + SAFELOADER_QNEW_HEADER_SIZE + SAFELOADER_HEADER_SIZE"
definition SAFELOADER_PAYLOAD_TABLE_SIZE :: nat where "SAFELOADER_PAYLOAD_TABLE_SIZE = 0x800"



text \<open>The macro \<^verbatim>\<open>ALIGN(x, a)\<close>; both of its uses compute in 64 bits.\<close>

definition ALIGN :: "u64 \<Rightarrow> u64 \<Rightarrow> u64" where
  "ALIGN x a = (x + a - 1) AND NOT (a - 1)"

definition set_partition_names :: "device_info \<Rightarrow> device_info" where
  "set_partition_names info =
     (let n = di_partition_names info;
          dflt = (\<lambda>field name. case field of None \<Rightarrow> Some name | Some v \<Rightarrow> Some v)
      in info\<lparr>di_partition_names :=
           \<lparr>pn_partition_table = dflt (pn_partition_table n) ''partition-table'',
            pn_soft_ver = dflt (pn_soft_ver n) ''soft-version'',
            pn_os_image = dflt (pn_os_image n) ''os-image'',
            pn_support_list = dflt (pn_support_list n) ''support-list'',
            pn_file_system = dflt (pn_file_system n) ''file-system'',
            pn_extra_para = dflt (pn_extra_para n) ''extra-para''\<rparr>\<rparr>)"

section \<open>Formatted output\<close>

text \<open>\<^verbatim>\<open>printf\<close>'s conversion \<^verbatim>\<open>%05x\<close> of an \<^verbatim>\<open>unsigned\<close>: lower-case hexadecimal
  digits, padded with zeros on the left to at least five characters.\<close>

definition hex_digit :: "nat \<Rightarrow> char" where
  "hex_digit d = ''0123456789abcdef'' ! d"

fun hex_of :: "nat \<Rightarrow> string" where
  "hex_of n = (if n < 16 then [hex_digit n] else hex_of (n div 16) @ [hex_digit (n mod 16)])"

declare hex_of.simps [simp del]

definition fmt_05x :: "u32 \<Rightarrow> string" where
  "fmt_05x v = (let d = hex_of (unat v) in replicate (5 - length d) CHR ''0'' @ d)"

text \<open>The two line formats: \<^verbatim>\<open>"partition %s base 0x%05x size 0x%05x\n"\<close> of the flash
  partition table and \<^verbatim>\<open>"fwup-ptn %s base 0x%05x size 0x%05x\t\r\n"\<close> of the image
  partition table.\<close>

definition fmt_partition :: "string \<Rightarrow> u32 \<Rightarrow> u32 \<Rightarrow> string" where
  "fmt_partition name base sz =
     ''partition '' @ name @ '' base 0x'' @ fmt_05x base @ '' size 0x'' @ fmt_05x sz @ [CHR 0x0A]"

definition fmt_fwup_ptn :: "string \<Rightarrow> u32 \<Rightarrow> u32 \<Rightarrow> string" where
  "fmt_fwup_ptn name base sz =
     ''fwup-ptn '' @ name @ '' base 0x'' @ fmt_05x base @ '' size 0x'' @ fmt_05x sz
       @ [CHR 0x09, CHR 0x0D, CHR 0x0A]"

text \<open>\<open>overwrite\<close> replaces the bytes of a buffer from an offset on. \<^verbatim>\<open>snprintf(buf + s,
  len, ...)\<close> with the formatted string \<open>str\<close> writes at most \<open>len - 1\<close> of its characters
  and a NUL, and returns the length of \<open>str\<close>; here it yields the buffer, its callers
  take the length of \<open>str\<close> themselves. \<open>size_t_pred\<close> is \<^verbatim>\<open>len - 1\<close> on a
  \<^verbatim>\<open>size_t\<close>.\<close>

definition overwrite :: "u8 list \<Rightarrow> nat \<Rightarrow> u8 list \<Rightarrow> u8 list" where
  "overwrite buf off src = take off buf @ src @ drop (off + length src) buf"

definition snprintf :: "u8 list \<Rightarrow> nat \<Rightarrow> nat \<Rightarrow> string \<Rightarrow> u8 list" where
  "snprintf buf s len str =
     (if len = 0 then buf else overwrite buf s (take (len - 1) (cstr str) @ [0]))"

definition size_t_pred :: "nat \<Rightarrow> nat" where
  "size_t_pred len = (if len = 0 then 2 ^ 64 - 1 else len - 1)"

section \<open>Building the partitions\<close>












section \<open>Assembling images\<close>

text \<open>\<^verbatim>\<open>put_partitions\<close>: \<open>buffer\<close> is the image from the payload offset on,
  \<open>image_pt\<close> the write position in the table and \<open>base\<close> the offset of the next
  partition's bytes. The inner loop finds the first flash partition of the same name; the
  \<^verbatim>\<open>assert\<close> fails when there is none.\<close>

fun put_partitions_loop ::
  "flash_partition_entry list \<Rightarrow> u8 list \<Rightarrow> nat \<Rightarrow> nat \<Rightarrow> image_partition_entry list
     \<Rightarrow> error + u8 list" where
  "put_partitions_loop flash_parts buffer image_pt base [] = Inr buffer"
| "put_partitions_loop flash_parts buffer image_pt base (p # ps) =
     (case find (\<lambda>f. fp_name f = ip_name p) flash_parts of
        None \<Rightarrow> Inl Abort
      | Some f \<Rightarrow>
          if ip_size p > unat (fp_size f)
          then Inl (Exit ''%s partition too big (more than %u bytes)'')
          else if ip_size p > length (ip_data p) then Inl Undefined
          else case memcpy buffer base (take (ip_size p) (ip_data p)) of
                 Inl e \<Rightarrow> Inl e
               | Inr buffer \<Rightarrow>
                   (let len = SAFELOADER_PAYLOAD_TABLE_SIZE - image_pt;
                        str = fmt_fwup_ptn (ip_name p) (of_nat base) (of_nat (ip_size p));
                        w = length str;
                        buffer = snprintf buffer image_pt len str
                    in if w > size_t_pred len then Inl (Exit ''image partition table overflow?'')
                       else put_partitions_loop flash_parts buffer (image_pt + w)
                              (base + ip_size p) ps))"

definition put_partitions ::
  "u8 list \<Rightarrow> flash_partition_entry list \<Rightarrow> image_partition_entry list \<Rightarrow> error + u8 list" where
  "put_partitions buffer flash_parts parts =
     put_partitions_loop flash_parts buffer 0 SAFELOADER_PAYLOAD_TABLE_SIZE parts"






section \<open>build_image\<close>

text \<open>The search for the partition named firmware keeps the last index that carries the
  name.\<close>

fun find_firmware_partition :: "flash_partition_entry list \<Rightarrow> nat \<Rightarrow> nat option \<Rightarrow> nat option" where
  "find_firmware_partition [] i found = found"
| "find_firmware_partition (p # ps) i found =
     find_firmware_partition ps (i + 1) (if fp_name p = ''firmware'' then Some i else found)"

text \<open>The body of \<^verbatim>\<open>if (firmware_partition)\<close> in \<^verbatim>\<open>build_image\<close>. \<open>kernel_file\<close> is the
  content of the kernel file, whose \<^verbatim>\<open>st_size\<close> is its length. The entries after the firmware partition move
  up by one, the file-system entry takes the free place, and the firmware entry itself
  becomes the os-image entry (\<^verbatim>\<open>os_image_partition\<close> and \<^verbatim>\<open>firmware_partition\<close> point
  to the same element). The sums are computed in 64 bits and stored in 32. The result is
  the profile and the file-system entry that \<^verbatim>\<open>file_system_partition\<close> points to.\<close>

definition build_image_split ::
  "u8 list option \<Rightarrow> bool \<Rightarrow> nat \<Rightarrow> device_info
     \<Rightarrow> error + (device_info \<times> flash_partition_entry)" where
  "build_image_split kernel_image sysupgrade firmware_partition_index info =
     (case kernel_image of
        None \<Rightarrow> Inl (Exit ''unable to stat file'')
      | Some kernel_file \<Rightarrow>
          (let firmware_partition = di_partitions info ! firmware_partition_index;
               st_size = length kernel_file
           in if st_size > unat (fp_size firmware_partition)
              then Inl (Exit ''kernel overflowed firmware partition'')
              else
                (let base = (ucast (ucast (fp_base firmware_partition) + (of_nat st_size :: u64)) :: u32);
                     base = (if \<not> sysupgrade
                             then ucast (ALIGN (ucast (fp_base firmware_partition) + of_nat st_size) 0x10000)
                             else base);
                     file_system_partition =
                       \<lparr>fp_name = the (pn_file_system (di_partition_names info)),
                        fp_base = base,
                        fp_size = fp_size firmware_partition - base\<rparr>;
                     os_image_partition =
                       firmware_partition\<lparr>fp_name := the (pn_os_image (di_partition_names info)),
                                          fp_size := of_nat st_size\<rparr>
                 in Inr (info\<lparr>di_partitions :=
                           take firmware_partition_index (di_partitions info)
                           @ [os_image_partition, file_system_partition]
                           @ drop (firmware_partition_index + 1) (di_partitions info)\<rparr>,
                         file_system_partition))))"







section \<open>Reading an image\<close>

subsection \<open>C library functions used by the parser\<close>

text \<open>\<^verbatim>\<open>isspace\<close> in the C locale, and the value of a character as a digit (36 for a
  character that is no digit in any base).\<close>

definition c_isspace :: "u8 \<Rightarrow> bool" where
  "c_isspace c = (c = 0x20 \<or> (0x09 \<le> c \<and> c \<le> 0x0D))"

definition digit_val :: "u8 \<Rightarrow> nat" where
  "digit_val c =
     (let n = unat c
      in if 48 \<le> n \<and> n \<le> 57 then n - 48
         else if 97 \<le> n \<and> n \<le> 122 then n - 87
         else if 65 \<le> n \<and> n \<le> 90 then n - 55
         else 36)"

text \<open>\<^verbatim>\<open>strtoul(nptr, &endptr, base)\<close> and \<^verbatim>\<open>strtoull\<close>, for base 10 or 16 and a 64-bit
  \<^verbatim>\<open>unsigned long\<close>: white space is skipped, then an optional sign, for base 16 an
  optional \<^verbatim>\<open>0x\<close> that a hexadecimal digit follows, then the digits. The result is the
  value, the text at \<^verbatim>\<open>endptr\<close> and whether \<^verbatim>\<open>errno\<close> is set to \<^verbatim>\<open>ERANGE\<close>. The
  bytes of \<open>nptr\<close> run to the end of its buffer; the NUL that ends the string is no
  digit.\<close>

definition strtoul :: "u8 list \<Rightarrow> nat \<Rightarrow> u64 \<times> u8 list \<times> bool" where
  "strtoul nptr base =
     (let s1 = dropWhile c_isspace nptr;
          neg = (s1 \<noteq> [] \<and> hd s1 = 0x2D);
          s2 = (if s1 \<noteq> [] \<and> (hd s1 = 0x2D \<or> hd s1 = 0x2B) then tl s1 else s1);
          s3 = (if base = 16 \<and> 3 \<le> length s2 \<and> s2 ! 0 = 0x30
                     \<and> (s2 ! 1 = 0x78 \<or> s2 ! 1 = 0x58) \<and> digit_val (s2 ! 2) < 16
                then drop 2 s2 else s2);
          ds = takeWhile (\<lambda>c. digit_val c < base) s3;
          v = foldl (\<lambda>a c. a * base + digit_val c) 0 ds
      in if ds = [] then (0, nptr, False)
         else if v \<ge> 2 ^ 64 then (- 1, drop (length ds) s3, True)
         else (if neg then - of_nat v else of_nat v, drop (length ds) s3, False))"

text \<open>\<^verbatim>\<open>memchr(s, c, n)\<close>: the offset of the first \<open>c\<close> among the first \<open>n\<close> bytes.\<close>

definition memchr :: "u8 list \<Rightarrow> u8 \<Rightarrow> nat \<Rightarrow> nat option" where
  "memchr s c n =
     (let i = length (takeWhile (\<lambda>x. x \<noteq> c) (take n s))
      in if i < length (take n s) then Some i else None)"

subsection \<open>The partition table parser\<close>

text \<open>\<^verbatim>\<open>add_flash_partition\<close>. The list holds the entries in use; the array has
  \<open>max_entries\<close> elements, and a free one follows the entries in use unless the array is
  full.\<close>

definition add_flash_partition ::
  "flash_partition_entry list \<Rightarrow> nat \<Rightarrow> string \<Rightarrow> u64 \<Rightarrow> u64
     \<Rightarrow> error + flash_partition_entry list" where
  "add_flash_partition part_list max_entries name base sz =
     (if length part_list \<ge> max_entries then Inl (Exit ''No free flash part entry available.'')
      else Inr (part_list @ [\<lparr>fp_name = name, fp_base = ucast base, fp_size = ucast sz\<rparr>]))"

datatype PARTITION_TABLE_TYPE = PARTITION_TABLE_FWUP | PARTITION_TABLE_FLASH

definition parthdr_of :: "PARTITION_TABLE_TYPE \<Rightarrow> u8 list" where
  "parthdr_of t = (case t of PARTITION_TABLE_FWUP \<Rightarrow> cstr ''fwup-ptn''
                           | PARTITION_TABLE_FLASH \<Rightarrow> cstr ''partition'')"

text \<open>The inner loop \<^verbatim>\<open>for (int i = 0; i <= 4; i++)\<close> of \<^verbatim>\<open>read_partition_table\<close>, over
  the values of \<open>i\<close> left to run. \<open>ptr\<close> is the buffer from the pointer \<^verbatim>\<open>ptr\<close> to its
  end, \<open>end_part\<close> the distance from \<^verbatim>\<open>ptr\<close> to the pointer \<^verbatim>\<open>end_part\<close> (0 once
  \<^verbatim>\<open>ptr\<close> has reached or passed it). \<^verbatim>\<open>strncpy\<close> stops at a NUL.\<close>

fun read_partition_fields ::
  "nat list \<Rightarrow> u8 list \<Rightarrow> nat \<Rightarrow> string \<Rightarrow> u64 \<Rightarrow> nat \<Rightarrow> flash_partition_entry list
     \<Rightarrow> error + (u8 list \<times> flash_partition_entry list)" where
  "read_partition_fields [] ptr end_part name base max_entries entries = Inr (ptr, entries)"
| "read_partition_fields (i # is) ptr end_part name base max_entries entries =
     (if end_part = 0 then Inr (ptr, entries)
      else case memchr ptr 0x20 end_part of
             None \<Rightarrow> Inl (Exit ''Ignoring the rest of the partition entries.'')
           | Some end_element \<Rightarrow>
               if i = 1 then
                 (let name_len = (if end_element > 31 then 31 else end_element);
                      name = map (\<lambda>b. char_of (unat b)) (takeWhile (\<lambda>b. b \<noteq> 0) (take name_len ptr))
                  in read_partition_fields is (drop (end_element + 1) ptr)
                       (end_part - (end_element + 1)) name base max_entries entries)
               else if i = 3 then
                 (let base = fst (strtoul ptr 16)
                  in read_partition_fields is (drop (end_element + 1) ptr)
                       (end_part - (end_element + 1)) name base max_entries entries)
               else if i = 4 then
                 (let sz = fst (strtoul (drop (end_element + 1) ptr) 16)
                  in case add_flash_partition entries max_entries name base sz of
                       Inl e \<Rightarrow> Inl e
                     | Inr entries \<Rightarrow>
                         read_partition_fields is (drop (end_part + 1) ptr) 0 name base
                           max_entries entries)
               else read_partition_fields is (drop (end_element + 1) ptr)
                      (end_part - (end_element + 1)) name base max_entries entries)"

text \<open>The \<^verbatim>\<open>while\<close> loop of \<^verbatim>\<open>read_partition_table\<close>; \<open>ptr\<close> is the buffer from the
  pointer to its end. Each round moves the pointer forward, which the termination proof
  shows.\<close>

function read_partition_table_loop ::
  "PARTITION_TABLE_TYPE \<Rightarrow> u8 list \<Rightarrow> nat \<Rightarrow> flash_partition_entry list
     \<Rightarrow> error + flash_partition_entry list" where
  "read_partition_table_loop t ptr max_entries entries =
     (if length (parthdr_of t) < length ptr \<and> take (length (parthdr_of t)) ptr = parthdr_of t
      then (case memchr ptr 0x0A (length ptr) of
              None \<Rightarrow> Inr entries
            | Some end_part \<Rightarrow>
                (case read_partition_fields [0, 1, 2, 3, 4] ptr end_part [] 0 max_entries entries of
                   Inl e \<Rightarrow> Inl e
                 | Inr (ptr', entries') \<Rightarrow>
                     read_partition_table_loop t ptr' max_entries entries'))
      else Inr entries)"
  by pat_completeness auto
termination
proof (relation "measure (\<lambda>(t, ptr, max_entries, entries). length ptr)")
  show "wf (measure (\<lambda>(t, ptr, max_entries, entries). length ptr))"
    by simp
next
  fix t :: PARTITION_TABLE_TYPE and ptr :: "u8 list" and max_entries :: nat
    and entries entries' :: "flash_partition_entry list" and end_part :: nat
    and x :: "u8 list \<times> flash_partition_entry list" and ptr' :: "u8 list"
  assume hdr: "length (parthdr_of t) < length ptr \<and> take (length (parthdr_of t)) ptr = parthdr_of t"
    and nl: "memchr ptr 0x0A (length ptr) = Some end_part"
    and rf: "read_partition_fields [0, 1, 2, 3, 4] ptr end_part [] 0 max_entries entries = Inr x"
    and x: "(ptr', entries') = x"
  have mono: "length q' \<le> length q"
    if "read_partition_fields js q ep nm b max_entries es = Inr (q', es')"
    for js q ep nm b es q' es'
    using that
  proof (induction js arbitrary: q ep nm b es)
    case Nil
    then show ?case by simp
  next
    case (Cons j js)
    show ?case
    proof (cases "ep = 0")
      case True
      with Cons.prems show ?thesis by simp
    next
      case False
      with Cons.prems obtain k where k: "memchr q 0x20 ep = Some k"
        by (cases "memchr q 0x20 ep") auto
      consider "j = 1" | "j = 3" | "j = 4" | "j \<noteq> 1 \<and> j \<noteq> 3 \<and> j \<noteq> 4" by blast
      then show ?thesis
      proof cases
        case 1
        with Cons.prems False k
        have "read_partition_fields js (drop (k + 1) q) (ep - (k + 1))
                (map (\<lambda>b. char_of (unat b)) (takeWhile (\<lambda>b. b \<noteq> 0) (take (if k > 31 then 31 else k) q)))
                b max_entries es = Inr (q', es')"
          by (simp add: Let_def)
        from Cons.IH [OF this] show ?thesis by simp
      next
        case 2
        with Cons.prems False k
        have "read_partition_fields js (drop (k + 1) q) (ep - (k + 1)) nm (fst (strtoul q 16))
                max_entries es = Inr (q', es')"
          by (simp add: Let_def)
        from Cons.IH [OF this] show ?thesis by simp
      next
        case 3
        with Cons.prems False k obtain es2
          where "read_partition_fields js (drop (ep + 1) q) 0 nm b max_entries es2 = Inr (q', es')"
          by (auto simp: Let_def split: sum.splits)
        from Cons.IH [OF this] show ?thesis by simp
      next
        case 4
        with Cons.prems False k
        have "read_partition_fields js (drop (k + 1) q) (ep - (k + 1)) nm b max_entries es
                = Inr (q', es')"
          by simp
        from Cons.IH [OF this] show ?thesis by simp
      qed
    qed
  qed
  have first: "ptr \<noteq> [] \<and> ptr ! 0 \<noteq> 0x0A"
  proof -
    from hdr have "ptr \<noteq> []" by auto
    moreover have "0 < length (parthdr_of t)"
      by (cases t) (simp_all add: parthdr_of_def cstr_def)
    then have "take (length (parthdr_of t)) ptr ! 0 = ptr ! 0"
      by simp
    with hdr have "ptr ! 0 = parthdr_of t ! 0"
      by simp
    moreover have "parthdr_of t ! 0 \<noteq> 0x0A"
      by (cases t) (simp_all add: parthdr_of_def cstr_def)
    ultimately show ?thesis by simp
  qed
  have ep: "end_part \<noteq> 0"
  proof
    assume "end_part = 0"
    with nl first show False
      by (cases ptr) (auto simp: memchr_def Let_def split: if_splits)
  qed
  from rf x have rf': "read_partition_fields [0, 1, 2, 3, 4] ptr end_part [] 0 max_entries entries
                        = Inr (ptr', entries')"
    by simp
  from rf' ep obtain k where k: "memchr ptr 0x20 end_part = Some k"
    and rest: "read_partition_fields [1, 2, 3, 4] (drop (k + 1) ptr) (end_part - (k + 1)) [] 0
                 max_entries entries = Inr (ptr', entries')"
    by (cases "memchr ptr 0x20 end_part") auto
  from mono [OF rest] have "length ptr' \<le> length ptr - (k + 1)" by simp
  moreover from first have "0 < length ptr" by simp
  ultimately have "length ptr' < length ptr" by linarith
  then show "((t, ptr', max_entries, entries'), (t, ptr, max_entries, entries))
               \<in> measure (\<lambda>(t, ptr, max_entries, entries). length ptr)"
    by simp
qed

declare read_partition_table_loop.simps [simp del]

text \<open>\<^verbatim>\<open>read_partition_table\<close>: \<open>file\<close> is the content of the open file. The result is
  the returned \<^verbatim>\<open>int\<close> and the entries.\<close>

definition read_partition_table ::
  "u8 list \<Rightarrow> nat \<Rightarrow> flash_partition_entry list \<Rightarrow> nat \<Rightarrow> PARTITION_TABLE_TYPE
     \<Rightarrow> error + (int \<times> flash_partition_entry list)" where
  "read_partition_table file offset entries max_entries t =
     (if length file < offset + SAFELOADER_PAYLOAD_TABLE_SIZE
      then Inl (Exit ''Can not read fwup-ptn from the firmware'')
      else
        (let buf = take SAFELOADER_PAYLOAD_TABLE_SIZE (drop offset file);
             buf = buf[SAFELOADER_PAYLOAD_TABLE_SIZE - 1 := 0]
         in if take (length (parthdr_of t)) buf \<noteq> parthdr_of t then Inr (1, entries)
            else case read_partition_table_loop t buf max_entries entries of
                   Inl e \<Rightarrow> Inl e
                 | Inr entries \<Rightarrow> Inr (0, entries)))"

subsection \<open>The container\<close>

datatype safeloader_image_type =
  SAFELOADER_TYPE_DEFAULT | SAFELOADER_TYPE_VENDOR | SAFELOADER_TYPE_CLOUD | SAFELOADER_TYPE_QNEW

record safeloader_image_info =
  si_type :: safeloader_image_type
  si_payload_offset :: nat
  si_entries :: "flash_partition_entry list"

text \<open>\<^verbatim>\<open>ntohl(*((uint32_t *) &buf[0]))\<close>: the first four bytes read as a big-endian
  number.\<close>

definition get32_be :: "u8 list \<Rightarrow> u32" where
  "get32_be buf = push_bit 24 (ucast (buf ! 0)) OR push_bit 16 (ucast (buf ! 1))
                  OR push_bit 8 (ucast (buf ! 2)) OR ucast (buf ! 3)"

text \<open>\<^verbatim>\<open>safeloader_parse_image\<close>; \<open>input_file\<close> is \<open>None\<close> for a NULL \<^verbatim>\<open>FILE\<close> pointer.
  The value that \<^verbatim>\<open>read_partition_table\<close> returns is not looked at.\<close>

definition safeloader_parse_image ::
  "u8 list option \<Rightarrow> safeloader_image_info \<Rightarrow> error + safeloader_image_info" where
  "safeloader_parse_image input_file image_info =
     (case input_file of
        None \<Rightarrow> Inr image_info
      | Some file \<Rightarrow>
          if length file < SAFELOADER_PREAMBLE_SIZE + 64 then Inl (Exit ''Can not read image header'')
          else
            (let buf = take 64 (drop SAFELOADER_PREAMBLE_SIZE file);
                 ty = (if take 4 buf = cstr ''?NEW'' then SAFELOADER_TYPE_QNEW
                       else if take 13 buf = cstr ''fw-type:Cloud'' then SAFELOADER_TYPE_CLOUD
                       else if get32_be buf \<le> of_nat SAFELOADER_HEADER_SIZE then SAFELOADER_TYPE_VENDOR
                       else SAFELOADER_TYPE_DEFAULT);
                 payload_offset = (case ty of
                                     SAFELOADER_TYPE_DEFAULT \<Rightarrow> SAFELOADER_PAYLOAD_OFFSET
                                   | SAFELOADER_TYPE_VENDOR \<Rightarrow> SAFELOADER_PAYLOAD_OFFSET
                                   | SAFELOADER_TYPE_CLOUD \<Rightarrow> SAFELOADER_PAYLOAD_OFFSET
                                   | SAFELOADER_TYPE_QNEW \<Rightarrow> SAFELOADER_QNEW_PAYLOAD_OFFSET)
             in case read_partition_table file payload_offset (si_entries image_info)
                       MAX_PARTITIONS PARTITION_TABLE_FWUP of
                  Inl e \<Rightarrow> Inl e
                | Inr (rc, entries) \<Rightarrow>
                    Inr \<lparr>si_type = ty, si_payload_offset = payload_offset, si_entries = entries\<rparr>))"

section \<open>Converting a factory image\<close>

text \<open>\<^verbatim>\<open>find_partition\<close>, on an array of \<open>max_entries\<close> elements of which \<open>entries\<close> are
  in use. The loop compares the name of every element; a free element has the name NULL,
  which \<^verbatim>\<open>strcmp\<close> dereferences.\<close>

definition find_partition ::
  "flash_partition_entry list \<Rightarrow> nat \<Rightarrow> string \<Rightarrow> string option
     \<Rightarrow> error + flash_partition_entry option" where
  "find_partition entries max_entries name error_msg =
     (case find (\<lambda>e. fp_name e = name) (take max_entries entries) of
        Some e \<Rightarrow> Inr (Some e)
      | None \<Rightarrow>
          if length entries < max_entries then Inl Undefined
          else (case error_msg of Some msg \<Rightarrow> Inl (Exit msg) | None \<Rightarrow> Inr None))"

text \<open>The output file: its content and the file position. \<^verbatim>\<open>fwrite\<close> at a position
  past the end fills the gap with zero bytes.\<close>

record out_file =
  of_data :: "u8 list"
  of_pos :: nat

definition fwrite :: "out_file \<Rightarrow> u8 list \<Rightarrow> out_file" where
  "fwrite f bytes =
     (let d = of_data f;
          d = (if of_pos f > length d then d @ replicate (of_pos f - length d) 0 else d)
      in \<lparr>of_data = take (of_pos f) d @ bytes @ drop (of_pos f + length bytes) d,
          of_pos = of_pos f + length bytes\<rparr>)"

text \<open>\<^verbatim>\<open>write_partition\<close>: the loop over whole chunks of 4096 bytes, with the read
  position \<open>pos\<close> of the input file, then the function.\<close>

function write_partition_loop ::
  "u8 list \<Rightarrow> nat \<Rightarrow> nat \<Rightarrow> nat \<Rightarrow> out_file \<Rightarrow> error + (nat \<times> nat \<times> out_file)" where
  "write_partition_loop file pos sz offset output_file =
     (if 4096 + offset \<le> sz
      then (if pos + 4096 \<le> length file
            then write_partition_loop file (pos + 4096) sz (offset + 4096)
                   (fwrite output_file (take 4096 (drop pos file)))
            else Inl (Exit ''Can not read partition from input_file''))
      else Inr (offset, pos, output_file))"
  by pat_completeness auto
termination
  by (relation "measure (\<lambda>(file, pos, sz, offset, output_file). sz - offset)") auto

declare write_partition_loop.simps [simp del]

definition write_partition ::
  "u8 list \<Rightarrow> nat \<Rightarrow> flash_partition_entry \<Rightarrow> out_file \<Rightarrow> error + out_file" where
  "write_partition file firmware_offset entry output_file =
     (case write_partition_loop file (unat (fp_base entry) + firmware_offset)
             (unat (fp_size entry)) 0 output_file of
        Inl e \<Rightarrow> Inl e
      | Inr (offset, pos, output_file) \<Rightarrow>
          if offset < unat (fp_size entry)
          then (let offset = unat (fp_size entry) - offset
                in if pos + offset \<le> length file
                   then Inr (fwrite output_file (take offset (drop pos file)))
                   else Inl (Exit ''Can not read partition from input_file''))
          else Inr output_file)"

text \<open>\<^verbatim>\<open>write_ff\<close>.\<close>

function write_ff_loop :: "nat \<Rightarrow> nat \<Rightarrow> out_file \<Rightarrow> nat \<times> out_file" where
  "write_ff_loop sz offset output_file =
     (if offset + 4096 < sz
      then write_ff_loop sz (offset + 4096) (fwrite output_file (replicate 4096 0xff))
      else (offset, output_file))"
  by pat_completeness auto
termination
  by (relation "measure (\<lambda>(sz, offset, output_file). sz - offset)") auto

declare write_ff_loop.simps [simp del]

definition write_ff :: "out_file \<Rightarrow> nat \<Rightarrow> out_file" where
  "write_ff output_file sz =
     (case write_ff_loop sz 0 output_file of
        (offset, output_file) \<Rightarrow>
          if offset < sz then fwrite output_file (take (sz - offset) (replicate 4096 0xff))
          else output_file)"

text \<open>\<^verbatim>\<open>convert_firmware\<close>; \<open>input\<close> is the content of the input file (\<open>None\<close> when it
  cannot be read), the result the content of the output file. The two differences are
  computed on \<^verbatim>\<open>uint32_t\<close>.\<close>

definition convert_firmware :: "u8 list option \<Rightarrow> error + u8 list" where
  "convert_firmware input =
     (case input of
        None \<Rightarrow> Inl (Exit ''Can not read input firmware %s'')
      | Some file \<Rightarrow>
     (case safeloader_parse_image (Some file)
             \<lparr>si_type = SAFELOADER_TYPE_DEFAULT, si_payload_offset = 0, si_entries = []\<rparr> of
        Inl e \<Rightarrow> Inl e
      | Inr info \<Rightarrow>
     (case find_partition (si_entries info) MAX_PARTITIONS ''os-image''
             (Some ''Error can not find os-image partition (fwup)'') of
        Inl e \<Rightarrow> Inl e
      | Inr None \<Rightarrow> Inl Undefined
      | Inr (Some fwup_os_image) \<Rightarrow>
     (case find_partition (si_entries info) MAX_PARTITIONS ''file-system''
             (Some ''Error can not find file-system partition (fwup)'') of
        Inl e \<Rightarrow> Inl e
      | Inr None \<Rightarrow> Inl Undefined
      | Inr (Some fwup_file_system) \<Rightarrow>
     (case find_partition (si_entries info) MAX_PARTITIONS ''partition-table''
             (Some ''Error can not find partition-table partition'') of
        Inl e \<Rightarrow> Inl e
      | Inr None \<Rightarrow> Inl Undefined
      | Inr (Some fwup_partition_table) \<Rightarrow>
     (case read_partition_table file
             (si_payload_offset info + unat (fp_base fwup_partition_table) + 4) []
             MAX_PARTITIONS PARTITION_TABLE_FLASH of
        Inl e \<Rightarrow> Inl e
      | Inr (rc, flash) \<Rightarrow>
          if rc \<noteq> 0 then Inl (Exit ''Error can not read the partition table (flash)'')
          else
     (case find_partition flash MAX_PARTITIONS ''os-image''
             (Some ''Error can not find os-image partition (flash)'') of
        Inl e \<Rightarrow> Inl e
      | Inr None \<Rightarrow> Inl Undefined
      | Inr (Some flash_os_image) \<Rightarrow>
     (case find_partition flash MAX_PARTITIONS ''file-system''
             (Some ''Error can not find file-system partition (flash)'') of
        Inl e \<Rightarrow> Inl e
      | Inr None \<Rightarrow> Inl Undefined
      | Inr (Some flash_file_system) \<Rightarrow>
     (case write_partition file (si_payload_offset info) fwup_os_image
             \<lparr>of_data = [], of_pos = 0\<rparr> of
        Inl e \<Rightarrow> Inl e
      | Inr output_file \<Rightarrow>
          (let output_file = write_ff output_file
                               (unat (fp_size flash_os_image - fp_size fwup_os_image));
               output_file = output_file
                               \<lparr>of_pos := unat (fp_base flash_file_system - fp_base flash_os_image)\<rparr>
           in case write_partition file (si_payload_offset info) fwup_file_system output_file of
                Inl e \<Rightarrow> Inl e
              | Inr output_file \<Rightarrow> Inr (of_data output_file)))))))))))"

section \<open>The build date\<close>

text \<open>\<^verbatim>\<open>set_source_date_epoch\<close>: \<open>env\<close> is the value of the environment variable
  \<^verbatim>\<open>SOURCE_DATE_EPOCH\<close> (\<open>None\<close> when it is not set), the result the value of the global
  variable \<^verbatim>\<open>source_date_epoch\<close>, which starts as \<^verbatim>\<open>-1\<close>.\<close>

definition set_source_date_epoch :: "string option \<Rightarrow> error + u64" where
  "set_source_date_epoch env =
     (case env of
        None \<Rightarrow> Inr (- 1)
      | Some s \<Rightarrow>
          if s = [] then Inr (- 1)
          else (case strtoul (cstr s) 10 of
                  (v, endptr, erange) \<Rightarrow>
                    if erange \<or> endptr \<noteq> [] then Inl (Exit ''Invalid SOURCE_DATE_EPOCH'')
                    else Inr v))"

section \<open>Layouts\<close>

text \<open>The text of the image partition table for a list of partitions laid out from
  \<open>base\<close> on: one line for each partition, in order, with the offset of the
  partition's bytes and its size. The text of the flash partition table: one line for
  each flash partition.\<close>

fun fwup_table :: "nat \<Rightarrow> image_partition_entry list \<Rightarrow> string" where
  "fwup_table base [] = []"
| "fwup_table base (p # ps) =
     fmt_fwup_ptn (ip_name p) (of_nat base) (of_nat (ip_size p)) @ fwup_table (base + ip_size p) ps"


text \<open>A partition passes the checks of \<^verbatim>\<open>put_partitions\<close> when a flash partition has
  its name, the first such is large enough, and the partition's buffer holds the bytes
  that its size announces.\<close>

definition part_ok :: "flash_partition_entry list \<Rightarrow> image_partition_entry \<Rightarrow> bool" where
  "part_ok flash_parts p =
     (case find (\<lambda>f. fp_name f = ip_name p) flash_parts of
        None \<Rightarrow> False
      | Some f \<Rightarrow> ip_size p \<le> unat (fp_size f) \<and> ip_size p \<le> length (ip_data p))"

text \<open>The bytes of the partitions, back to back.\<close>

definition parts_data :: "image_partition_entry list \<Rightarrow> u8 list" where
  "parts_data parts = concat (map (\<lambda>p. take (ip_size p) (ip_data p)) parts)"


definition table_region :: "image_partition_entry list \<Rightarrow> u8 list" where
  "table_region parts =
     (if parts = [] then replicate 0x800 0xff
      else cstr (fwup_table 0x800 parts)
           @ 0 # replicate (0x7FF - length (fwup_table 0x800 parts)) 0xff)"



section \<open>Inputs of the examples\<close>

text \<open>A heap whose fresh blocks hold zero bytes.\<close>

definition zero_junk :: "nat \<Rightarrow> u8" where
  "zero_junk i = 0"

text \<open>The support list of the scenario, \<^verbatim>\<open>"SupportList:\r\nFOO:1.0\r\n"\<close>, as bytes.\<close>

definition example_support_list :: "u8 list" where
  "example_support_list = cstr ''SupportList:'' @ [0x0D, 0x0A] @ cstr ''FOO:1.0'' @ [0x0D, 0x0A]"

text \<open>The profile of the scenario of the split: four flash partitions, the trailer
  0xff.\<close>

definition spec_scenario_profile :: device_info where
  "spec_scenario_profile =
     \<lparr>di_id = ''SCENARIO'', di_vendor = None, di_support_list = ''SupportList:'',
      di_part_trail = PART_TRAIL_FF, di_soft_ver = SOFT_VER_NUMERIC 0 0 0,
      di_soft_ver_compat_level = 0,
      di_partitions =
        [\<lparr>fp_name = ''fs-uboot'', fp_base = 0, fp_size = 0x20000\<rparr>,
         \<lparr>fp_name = ''firmware'', fp_base = 0x40000, fp_size = 0x770000\<rparr>,
         \<lparr>fp_name = ''soft-version'', fp_base = 0x7b0000, fp_size = 0x100\<rparr>,
         \<lparr>fp_name = ''support-list'', fp_base = 0x7b1000, fp_size = 0x400\<rparr>],
      di_first_sysupgrade_partition = ''os-image'',
      di_last_sysupgrade_partition = ''support-list'',
      di_partition_names =
        \<lparr>pn_partition_table = None, pn_soft_ver = None, pn_os_image = None,
         pn_support_list = None, pn_file_system = None, pn_extra_para = None\<rparr>\<rparr>"

text \<open>The first entry of the table \<^verbatim>\<open>boards\<close>, the CPE210/220 V1.\<close>

definition CPE210 :: device_info where
  "CPE210 =
     \<lparr>di_id = ''CPE210'',
      di_vendor = Some (''CPE510(TP-LINK|UN|N300-5):1.0'' @ [CHR 0x0D, CHR 0x0A]),
      di_support_list =
        ''SupportList:'' @ [CHR 0x0D, CHR 0x0A]
        @ ''CPE210(TP-LINK|UN|N300-2):1.0'' @ [CHR 0x0D, CHR 0x0A]
        @ ''CPE210(TP-LINK|UN|N300-2):1.1'' @ [CHR 0x0D, CHR 0x0A]
        @ ''CPE210(TP-LINK|US|N300-2):1.1'' @ [CHR 0x0D, CHR 0x0A]
        @ ''CPE210(TP-LINK|EU|N300-2):1.1'' @ [CHR 0x0D, CHR 0x0A]
        @ ''CPE220(TP-LINK|UN|N300-2):1.1'' @ [CHR 0x0D, CHR 0x0A]
        @ ''CPE220(TP-LINK|US|N300-2):1.1'' @ [CHR 0x0D, CHR 0x0A]
        @ ''CPE220(TP-LINK|EU|N300-2):1.1'' @ [CHR 0x0D, CHR 0x0A],
      di_part_trail = 0xff,
      di_soft_ver = SOFT_VER_NUMERIC 0 0 0,
      di_soft_ver_compat_level = 0,
      di_partitions =
        [\<lparr>fp_name = ''fs-uboot'', fp_base = 0x00000, fp_size = 0x20000\<rparr>,
         \<lparr>fp_name = ''partition-table'', fp_base = 0x20000, fp_size = 0x02000\<rparr>,
         \<lparr>fp_name = ''default-mac'', fp_base = 0x30000, fp_size = 0x00020\<rparr>,
         \<lparr>fp_name = ''product-info'', fp_base = 0x31100, fp_size = 0x00100\<rparr>,
         \<lparr>fp_name = ''signature'', fp_base = 0x32000, fp_size = 0x00400\<rparr>,
         \<lparr>fp_name = ''firmware'', fp_base = 0x40000, fp_size = 0x770000\<rparr>,
         \<lparr>fp_name = ''soft-version'', fp_base = 0x7b0000, fp_size = 0x00100\<rparr>,
         \<lparr>fp_name = ''support-list'', fp_base = 0x7b1000, fp_size = 0x00400\<rparr>,
         \<lparr>fp_name = ''user-config'', fp_base = 0x7c0000, fp_size = 0x10000\<rparr>,
         \<lparr>fp_name = ''default-config'', fp_base = 0x7d0000, fp_size = 0x10000\<rparr>,
         \<lparr>fp_name = ''log'', fp_base = 0x7e0000, fp_size = 0x10000\<rparr>,
         \<lparr>fp_name = ''radio'', fp_base = 0x7f0000, fp_size = 0x10000\<rparr>],
      di_first_sysupgrade_partition = ''os-image'',
      di_last_sysupgrade_partition = ''support-list'',
      di_partition_names =
        \<lparr>pn_partition_table = None, pn_soft_ver = None, pn_os_image = None,
         pn_support_list = None, pn_file_system = None, pn_extra_para = None\<rparr>\<rparr>"

text \<open>Image files for the variant detection: a preamble of 0x14 zero bytes, the 64
  bytes that are looked at, and zero bytes where a partition table would stand.\<close>

definition example_image :: "u8 list \<Rightarrow> u8 list" where
  "example_image header = replicate 0x14 0 @ header @ replicate 0x1840 0"

definition qnew_header :: "u8 list" where
  "qnew_header = cstr ''?NEW'' @ replicate 60 0"

definition cloud_header :: "u8 list" where
  "cloud_header = cstr ''fw-type:Cloud'' @ replicate 51 0"

definition vendor_header :: "u8 list" where
  "vendor_header = [0x00, 0x00, 0x00, 0x06] @ cstr ''vendor'' @ replicate 54 0xff"

definition default_header :: "u8 list" where
  "default_header =
     [0xff, 0xff, 0xff, 0xff, 0xff, 0xff, 0xff, 0xff, 0xff, 0xff, 0xff, 0xff, 0xff]
     @ replicate 51 0xff"

definition no_image_info :: safeloader_image_info where
  "no_image_info = \<lparr>si_type = SAFELOADER_TYPE_DEFAULT, si_payload_offset = 0, si_entries = []\<rparr>"

text \<open>One flash partition and one partition of three bytes for it.\<close>

definition one_flash :: "flash_partition_entry list" where
  "one_flash = [\<lparr>fp_name = ''os-image'', fp_base = 0, fp_size = 0x100\<rparr>]"

definition one_part :: "image_partition_entry list" where
  "one_part = [\<lparr>ip_name = ''os-image'', ip_size = 3, ip_data = [1, 2, 3]\<rparr>]"













section \<open>Properties of the buffers\<close>

lemma length_put32 [simp]: "length (put32 v) = 4"
  by (simp add: put32_def)

lemma length_malloc [simp]: "length (malloc junk n) = n"
  by (simp add: malloc_def)

lemma put32_0: "put32 0 = [0, 0, 0, 0]"
  by (simp add: put32_def)

lemma length_cstr [simp]: "length (cstr s) = length s"
  by (simp add: cstr_def)

lemma cstr_append [simp]: "cstr (a @ b) = cstr a @ cstr b"
  by (simp add: cstr_def)

lemma length_overwrite:
  "off + length src \<le> length buf \<Longrightarrow> length (overwrite buf off src) = length buf"
  by (simp add: overwrite_def)

lemma memcpy_overwrite:
  "off + length src \<le> length buf \<Longrightarrow> memcpy buf off src = Inr (overwrite buf off src)"
  by (simp add: memcpy_def overwrite_def)

lemma overwrite_append:
  "length a = off \<Longrightarrow> length src \<le> length b \<Longrightarrow>
   overwrite (a @ b) off src = a @ src @ drop (length src) b"
  by (simp add: overwrite_def)

section \<open>The meta-partition encoder\<close>

lemma init_meta_partition_entry_Some:
  assumes len: "length payload = unat data_len"
      and fit: "8 + unat data_len + (if meta_partition_should_pad pv then 1 else 0) < 2 ^ 32"
  shows "init_meta_partition_entry junk name (Some payload) data_len pv =
           Inr \<lparr>ip_name = name,
                ip_size = 8 + length payload + (if meta_partition_should_pad pv then 1 else 0),
                ip_data = put32 data_len @ put32 0 @ payload
                          @ (if meta_partition_should_pad pv then [word_of_int pv] else [])\<rparr>"
proof (cases "meta_partition_should_pad pv")
  case True
  have u: "unat ((9 :: u32) + data_len) = 9 + unat data_len"
    using fit True by (simp add: unat_word_ariths)
  have u1: "unat ((8 :: u32) + data_len) = 8 + unat data_len"
    using fit True by (simp add: unat_word_ariths)
  show ?thesis
    using True len
    by (simp add: init_meta_partition_entry_def Let_def u u1 memcpy_def)
next
  case False
  have u: "unat ((8 :: u32) + data_len) = 8 + unat data_len"
    using fit False by (simp add: unat_word_ariths)
  show ?thesis
    using False len
    by (simp add: init_meta_partition_entry_def Let_def u memcpy_def)
qed

text \<open>
  C5, as amended. The lengths are computed on \<^verbatim>\<open>uint32_t\<close>: for every payload of
  \<open>data_len\<close> bytes and every trailer policy such that 8 + \<open>data_len\<close> + (1 if the policy
  names a pad byte, a value in 0x00..0xff, else 0) stays below \<open>2^32\<close>, the encoder
  returns an entry of exactly that many bytes: the payload length as a big-endian u32,
  a zero u32, the payload, and the pad byte as the last byte only when the policy names
  one.
\<close>

theorem init_meta_partition_entry_layout:
  assumes "length payload = unat data_len"
      and "8 + unat data_len + (if meta_partition_should_pad pv then 1 else 0) < 2 ^ 32"
  shows "init_meta_partition_entry junk name (Some payload) data_len pv =
           Inr \<lparr>ip_name = name,
                ip_size = 8 + length payload + (if meta_partition_should_pad pv then 1 else 0),
                ip_data = put32 data_len @ [0, 0, 0, 0] @ payload
                          @ (if meta_partition_should_pad pv then [word_of_int pv] else [])\<rparr>"
  using init_meta_partition_entry_Some [OF assms] by (simp add: put32_0)

text \<open>The scenario of the claim: the 23-byte support list with the trailer 0xff gives 32
  bytes that start with 00 00 00 17 00 00 00 00 and end with ff.\<close>

theorem init_meta_partition_entry_layout_witness:
  "length example_support_list = unat (23 :: u32)
   \<and> 8 + unat (23 :: u32) + (if meta_partition_should_pad PART_TRAIL_FF then 1 else 0) < (2 :: nat) ^ 32
   \<and> init_meta_partition_entry zero_junk ''support-list'' (Some example_support_list) 23 PART_TRAIL_FF
       = Inr \<lparr>ip_name = ''support-list'', ip_size = 32,
               ip_data = [0x00, 0x00, 0x00, 0x17, 0x00, 0x00, 0x00, 0x00]
                         @ example_support_list @ [0xFF]\<rparr>"
proof -
  have l: "length example_support_list = unat (23 :: u32)"
    by (simp add: example_support_list_def)
  have f: "8 + unat (23 :: u32) + (if meta_partition_should_pad PART_TRAIL_FF then 1 else 0) < (2 :: nat) ^ 32"
    by simp
  have p: "meta_partition_should_pad PART_TRAIL_FF"
    by (simp add: meta_partition_should_pad_def PART_TRAIL_FF_def PART_TRAIL_MAX_def)
  have w: "(word_of_int PART_TRAIL_FF :: u8) = 0xFF"
    by (simp add: PART_TRAIL_FF_def)
  have h: "put32 23 = [0x00, 0x00, 0x00, 0x17]"
    by (simp add: put32_def)
  show ?thesis
    using init_meta_partition_entry_layout [OF l f, of zero_junk "''support-list''"] l f
    by (simp add: p w h)
qed

text \<open>C5 as stated fails where the 32-bit length wraps: for a payload of \<open>2^32 - 8\<close>
  bytes and no trailer the code computes the total length 0, so no entry of
  \<open>8 + (2^32 - 8)\<close> bytes comes back (the header is written past a block of 0 bytes).\<close>

theorem init_meta_partition_entry_wraps:
  "unat ((8 :: u32) + 0xFFFFFFF8) = 0
   \<and> init_meta_partition_entry zero_junk ''soft-version'' (Some (replicate 4294967288 0))
        0xFFFFFFF8 PART_TRAIL_NONE = Inl Undefined"
  by (simp add: init_meta_partition_entry_def Let_def meta_partition_should_pad_def
        PART_TRAIL_NONE_def PART_TRAIL_MAX_def memcpy_def)

section \<open>Words\<close>


lemma and_not_mask16: "(y :: u64) AND NOT 0xFFFF = push_bit 16 (drop_bit 16 y)"
proof -
  have m: "(0xFFFF :: u64) = mask 16" by (simp add: mask_eq_exp_minus_1)
  show ?thesis
    unfolding m by (rule bit_word_eqI) (auto simp: bit_simps)
qed

lemma unat_push_drop16:
  "unat (push_bit 16 (drop_bit 16 (y :: u64))) = unat y div 0x10000 * 0x10000"
proof -
  have d: "unat (drop_bit 16 y) = unat y div 0x10000"
    by (simp add: unat_drop_bit_eq drop_bit_eq_div unat_div)
  have p: "unat (push_bit 16 (drop_bit 16 y)) = (unat (drop_bit 16 y) * 0x10000) mod 2 ^ 64"
    by (simp add: push_bit_eq_mult unat_word_ariths)
  have "unat y div 0x10000 * 0x10000 \<le> unat y" by simp
  moreover have "unat y < 2 ^ 64" using unsigned_less [of y] by simp
  ultimately have "unat y div 0x10000 * 0x10000 < 2 ^ 64" by linarith
  then show ?thesis by (simp add: p d)
qed

lemma ALIGN_64k: "ALIGN x 0x10000 = push_bit 16 (drop_bit 16 (x + 0xFFFF))"
proof -
  have a: "(0x10000 - 1 :: u64) = 0xFFFF" by simp
  have b: "x + 0x10000 - 1 = x + 0xFFFF" by simp
  show ?thesis
    unfolding ALIGN_def a b by (rule and_not_mask16)
qed

text \<open>\<^verbatim>\<open>ALIGN(x, 0x10000)\<close> is the least multiple of 0x10000 that is not below \<open>x\<close>,
  as long as the sum inside it does not wrap.\<close>

lemma unat_ALIGN_64k:
  assumes "unat x + 0xFFFF < 2 ^ 64"
  shows "unat (ALIGN x 0x10000) = (unat x + 0xFFFF) div 0x10000 * 0x10000"
proof -
  have a: "unat (x + 0xFFFF) = unat x + 0xFFFF"
    using assms by (simp add: unat_word_ariths)
  show ?thesis by (simp only: ALIGN_64k unat_push_drop16 a)
qed

lemma unat_ucast_u64_u32: "unat (ucast (w :: u64) :: u32) = unat w mod 2 ^ 32"
  by (simp add: unsigned_ucast_eq take_bit_eq_mod)

lemma unat_ucast_u32_u64: "unat (ucast (b :: u32) :: u64) = unat b"
proof -
  have "unat b < 2 ^ 32" using unsigned_less [of b] by simp
  then show ?thesis by (simp add: unsigned_ucast_eq take_bit_eq_mod)
qed

lemma unat_sum_u64:
  fixes b :: u32
  assumes "k < 2 ^ 32"
  shows "unat ((ucast b :: u64) + of_nat k) = unat b + k"
proof -
  have "unat b < 2 ^ 32" using unsigned_less [of b] by simp
  with assms have "unat b + k < 2 ^ 64" by simp
  moreover have "unat (of_nat k :: u64) = k" using assms by (simp add: unat_of_nat)
  ultimately show ?thesis by (simp add: unat_word_ariths unat_ucast_u32_u64)
qed

section \<open>Variant detection\<close>

text \<open>A table region that does not start with the keyword: the parser returns 1 and
  leaves the entries alone.\<close>

lemma read_partition_table_no_header:
  assumes "offset + 0x800 \<le> length file" and "file ! offset \<noteq> parthdr_of t ! 0"
  shows "read_partition_table file offset entries max_entries t = Inr (1, entries)"
proof -
  let ?buf = "(take SAFELOADER_PAYLOAD_TABLE_SIZE (drop offset file))[SAFELOADER_PAYLOAD_TABLE_SIZE - 1 := 0]"
  have l: "0 < length (parthdr_of t)"
    by (cases t) (simp_all add: parthdr_of_def)
  have "?buf ! 0 = file ! offset"
    using assms(1) by (simp add: SAFELOADER_PAYLOAD_TABLE_SIZE_def)
  with assms(2) have "take (length (parthdr_of t)) ?buf ! 0 \<noteq> parthdr_of t ! 0"
    using l by simp
  then have "take (length (parthdr_of t)) ?buf \<noteq> parthdr_of t"
    by metis
  then show ?thesis
    using assms(1) by (simp add: read_partition_table_def SAFELOADER_PAYLOAD_TABLE_SIZE_def Let_def)
qed

text \<open>
  C4. Whenever \<^verbatim>\<open>safeloader_parse_image\<close> returns for an input file, the variant is
  QNEW when the bytes at offset 0x14 start with \<^verbatim>\<open>?NEW\<close>, else CLOUD when they start with
  \<^verbatim>\<open>fw-type:Cloud\<close>, else VENDOR when the big-endian u32 at offset 0x14 is at most
  0x1000, else DEFAULT; the payload offset is 0x14 + 0x3C + 0x1000 = 0x1050 for QNEW and
  0x14 + 0x1000 = 0x1014 for the three others.
\<close>

theorem safeloader_parse_image_variant:
  assumes "safeloader_parse_image (Some file) info0 = Inr info"
  shows "si_type info =
           (if take 4 (drop 0x14 file) = cstr ''?NEW'' then SAFELOADER_TYPE_QNEW
            else if take 13 (drop 0x14 file) = cstr ''fw-type:Cloud'' then SAFELOADER_TYPE_CLOUD
            else if get32_be (drop 0x14 file) \<le> 0x1000 then SAFELOADER_TYPE_VENDOR
            else SAFELOADER_TYPE_DEFAULT)
       \<and> si_payload_offset info =
           (if si_type info = SAFELOADER_TYPE_QNEW then 0x14 + 0x3C + 0x1000 else 0x14 + 0x1000)
       \<and> si_payload_offset info = (if si_type info = SAFELOADER_TYPE_QNEW then 0x1050 else 0x1014)"
proof -
  from assms have len: "0x14 + 64 \<le> length file"
    by (auto simp: safeloader_parse_image_def SAFELOADER_PREAMBLE_SIZE_def split: if_splits)
  have t4: "take 4 (take 64 (drop 0x14 file)) = take 4 (drop 0x14 file)"
    and t13: "take 13 (take 64 (drop 0x14 file)) = take 13 (drop 0x14 file)"
    by simp_all
  have g: "get32_be (take 64 (drop 0x14 file)) = get32_be (drop 0x14 file)"
    using len by (simp add: get32_be_def)
  from assms len show ?thesis
    by (auto simp: safeloader_parse_image_def SAFELOADER_PREAMBLE_SIZE_def
          SAFELOADER_HEADER_SIZE_def SAFELOADER_PAYLOAD_OFFSET_def
          SAFELOADER_QNEW_PAYLOAD_OFFSET_def SAFELOADER_QNEW_HEADER_SIZE_def
          Let_def t4 t13 g
          split: if_splits sum.splits prod.splits)
qed

lemma safeloader_parse_image_example:
  assumes h: "length header = 64"
  shows "safeloader_parse_image (Some (example_image header)) info0 =
           (let ty = (if take 4 header = cstr ''?NEW'' then SAFELOADER_TYPE_QNEW
                      else if take 13 header = cstr ''fw-type:Cloud'' then SAFELOADER_TYPE_CLOUD
                      else if get32_be header \<le> 0x1000 then SAFELOADER_TYPE_VENDOR
                      else SAFELOADER_TYPE_DEFAULT)
            in Inr \<lparr>si_type = ty,
                    si_payload_offset = (if ty = SAFELOADER_TYPE_QNEW then 0x1050 else 0x1014),
                    si_entries = si_entries info0\<rparr>)"
proof -
  have len: "length (example_image header) = 0x1894"
    by (simp add: example_image_def h)
  have p0: "parthdr_of PARTITION_TABLE_FWUP ! 0 = 0x66"
    by (simp add: parthdr_of_def cstr_def)
  have z1: "example_image header ! 0x1014 = 0" and z2: "example_image header ! 0x1050 = 0"
    by (simp_all add: example_image_def h nth_append)
  have r1: "read_partition_table (example_image header) 0x1014 es MAX_PARTITIONS PARTITION_TABLE_FWUP
              = Inr (1, es)" for es
    by (rule read_partition_table_no_header) (simp_all add: len z1 p0)
  have r2: "read_partition_table (example_image header) 0x1050 es MAX_PARTITIONS PARTITION_TABLE_FWUP
              = Inr (1, es)" for es
    by (rule read_partition_table_no_header) (simp_all add: len z2 p0)
  have d: "take 64 (drop 0x14 (example_image header)) = header"
    by (simp add: example_image_def h)
  show ?thesis
    by (simp add: safeloader_parse_image_def len SAFELOADER_PREAMBLE_SIZE_def
          SAFELOADER_HEADER_SIZE_def SAFELOADER_PAYLOAD_OFFSET_def
          SAFELOADER_QNEW_PAYLOAD_OFFSET_def SAFELOADER_QNEW_HEADER_SIZE_def Let_def r1 r2 d)
qed

lemma safeloader_parse_image_qnew:
  "safeloader_parse_image (Some (example_image qnew_header)) no_image_info
     = Inr \<lparr>si_type = SAFELOADER_TYPE_QNEW, si_payload_offset = 0x1050, si_entries = []\<rparr>"
  by (subst safeloader_parse_image_example)
     (simp_all add: qnew_header_def cstr_def no_image_info_def)

lemma safeloader_parse_image_cloud:
  "safeloader_parse_image (Some (example_image cloud_header)) no_image_info
     = Inr \<lparr>si_type = SAFELOADER_TYPE_CLOUD, si_payload_offset = 0x1014, si_entries = []\<rparr>"
  by (subst safeloader_parse_image_example)
     (simp_all add: cloud_header_def cstr_def no_image_info_def)

lemma safeloader_parse_image_vendor:
  "safeloader_parse_image (Some (example_image vendor_header)) no_image_info
     = Inr \<lparr>si_type = SAFELOADER_TYPE_VENDOR, si_payload_offset = 0x1014, si_entries = []\<rparr>"
  by (subst safeloader_parse_image_example)
     (simp_all add: vendor_header_def cstr_def get32_be_def no_image_info_def)

lemma safeloader_parse_image_default:
  "safeloader_parse_image (Some (example_image default_header)) no_image_info
     = Inr \<lparr>si_type = SAFELOADER_TYPE_DEFAULT, si_payload_offset = 0x1014, si_entries = []\<rparr>"
  by (subst safeloader_parse_image_example)
     (simp_all add: default_header_def cstr_def get32_be_def no_image_info_def)

text \<open>One file for each variant: the parser returns, with the variant of the signature
  and the offset of the variant.\<close>

theorem safeloader_parse_image_variant_witness:
  "safeloader_parse_image (Some (example_image qnew_header)) no_image_info
     = Inr \<lparr>si_type = SAFELOADER_TYPE_QNEW, si_payload_offset = 0x1050, si_entries = []\<rparr>
   \<and> safeloader_parse_image (Some (example_image cloud_header)) no_image_info
     = Inr \<lparr>si_type = SAFELOADER_TYPE_CLOUD, si_payload_offset = 0x1014, si_entries = []\<rparr>
   \<and> safeloader_parse_image (Some (example_image vendor_header)) no_image_info
     = Inr \<lparr>si_type = SAFELOADER_TYPE_VENDOR, si_payload_offset = 0x1014, si_entries = []\<rparr>
   \<and> safeloader_parse_image (Some (example_image default_header)) no_image_info
     = Inr \<lparr>si_type = SAFELOADER_TYPE_DEFAULT, si_payload_offset = 0x1014, si_entries = []\<rparr>
   \<and> take 4 (drop 0x14 (example_image qnew_header)) = cstr ''?NEW''
   \<and> take 13 (drop 0x14 (example_image cloud_header)) = cstr ''fw-type:Cloud''
   \<and> get32_be (drop 0x14 (example_image vendor_header)) = 6
   \<and> get32_be (drop 0x14 (example_image default_header)) = 0xFFFFFFFF"
  using safeloader_parse_image_variant [OF safeloader_parse_image_qnew]
    safeloader_parse_image_variant [OF safeloader_parse_image_cloud]
    safeloader_parse_image_variant [OF safeloader_parse_image_vendor]
    safeloader_parse_image_variant [OF safeloader_parse_image_default]
    safeloader_parse_image_qnew safeloader_parse_image_cloud
    safeloader_parse_image_vendor safeloader_parse_image_default
  by (simp add: example_image_def qnew_header_def cloud_header_def vendor_header_def
        default_header_def cstr_def get32_be_def)

section \<open>The split of the firmware partition\<close>

lemma find_firmware_partition_Some:
  "find_firmware_partition ps i found = Some idx \<Longrightarrow>
   found = Some idx \<or> (i \<le> idx \<and> idx < i + length ps \<and> fp_name (ps ! (idx - i)) = ''firmware'')"
proof (induction ps arbitrary: i found)
  case Nil
  then show ?case by simp
next
  case (Cons p ps)
  from Cons.prems
  have "find_firmware_partition ps (i + 1) (if fp_name p = ''firmware'' then Some i else found)
          = Some idx"
    by simp
  from Cons.IH [OF this] show ?case
    by (auto split: if_splits simp: nth_Cons')
qed

lemma find_firmware_partition_index:
  assumes "find_firmware_partition ps 0 None = Some idx"
  shows "idx < length ps \<and> fp_name (ps ! idx) = ''firmware''"
  using find_firmware_partition_Some [OF assms] by simp

text \<open>
  C7, as amended. When the profile has a flash partition named firmware (\<open>idx\<close> is the
  index that \<^verbatim>\<open>build_image\<close> finds) and the split returns, the kernel is no larger than
  the firmware partition, the entry at \<open>idx\<close> becomes the os-image entry with the
  firmware base and the kernel size, and the entry after it is the file-system entry,
  whose base is firmware.base + kernel_size for sysupgrade builds and that sum rounded up
  to the next multiple of 0x10000 (64 KiB) for factory builds, both cut to 32 bits. In
  the scenario (firmware base 0x40000, kernel size 0x150000, factory build) the sum
  0x190000 is a multiple of 0x10000 already, so the file-system base is 0x190000.
\<close>

theorem build_image_split_base:
  assumes fw: "find_firmware_partition (di_partitions info) 0 None = Some idx"
      and sp: "build_image_split (Some kernel_file) sysupgrade idx info = Inr (info', fsp)"
  shows "fp_name (di_partitions info ! idx) = ''firmware''
       \<and> length kernel_file \<le> unat (fp_size (di_partitions info ! idx))
       \<and> di_partitions info' ! idx =
           \<lparr>fp_name = the (pn_os_image (di_partition_names info)),
            fp_base = fp_base (di_partitions info ! idx),
            fp_size = of_nat (length kernel_file)\<rparr>
       \<and> di_partitions info' ! (idx + 1) = fsp
       \<and> fp_name fsp = the (pn_file_system (di_partition_names info))
       \<and> unat (fp_base fsp) =
           (if sysupgrade
            then (unat (fp_base (di_partitions info ! idx)) + length kernel_file) mod 2 ^ 32
            else ((unat (fp_base (di_partitions info ! idx)) + length kernel_file + 0xFFFF)
                    div 0x10000 * 0x10000) mod 2 ^ 32)"
proof -
  let ?fw = "di_partitions info ! idx"
  from find_firmware_partition_index [OF fw]
  have idx: "idx < length (di_partitions info)" and nm: "fp_name ?fw = ''firmware''"
    by simp_all
  from sp have fit: "length kernel_file \<le> unat (fp_size ?fw)"
    by (auto simp: build_image_split_def Let_def split: if_splits)
  have "unat (fp_size ?fw) < 2 ^ 32" using unsigned_less [of "fp_size ?fw"] by simp
  with fit have k: "length kernel_file < 2 ^ 32" by simp
  have s: "unat ((ucast (fp_base ?fw) :: u64) + of_nat (length kernel_file))
             = unat (fp_base ?fw) + length kernel_file"
    by (rule unat_sum_u64 [OF k])
  have "unat (fp_base ?fw) < 2 ^ 32" using unsigned_less [of "fp_base ?fw"] by simp
  with k have "unat ((ucast (fp_base ?fw) :: u64) + of_nat (length kernel_file)) + 0xFFFF < 2 ^ 64"
    by (simp add: s)
  from unat_ALIGN_64k [OF this]
  have a: "unat (ALIGN ((ucast (fp_base ?fw) :: u64) + of_nat (length kernel_file)) 0x10000)
             = (unat (fp_base ?fw) + length kernel_file + 0xFFFF) div 0x10000 * 0x10000"
    by (simp add: s)
  from sp fit have info': "di_partitions info' =
      take idx (di_partitions info)
      @ [?fw\<lparr>fp_name := the (pn_os_image (di_partition_names info)),
              fp_size := of_nat (length kernel_file)\<rparr>, fsp]
      @ drop (idx + 1) (di_partitions info)"
    by (auto simp: build_image_split_def Let_def split: if_splits)
  from sp fit have base: "fp_base fsp =
      (if sysupgrade then ucast ((ucast (fp_base ?fw) :: u64) + of_nat (length kernel_file))
       else ucast (ALIGN ((ucast (fp_base ?fw) :: u64) + of_nat (length kernel_file)) 0x10000))"
    and name: "fp_name fsp = the (pn_file_system (di_partition_names info))"
    by (auto simp: build_image_split_def Let_def split: if_splits)
  have n1: "di_partitions info' ! idx =
      ?fw\<lparr>fp_name := the (pn_os_image (di_partition_names info)),
           fp_size := of_nat (length kernel_file)\<rparr>"
    using idx by (simp add: info' nth_append)
  have n2: "di_partitions info' ! (idx + 1) = fsp"
    using idx by (simp add: info' nth_append)
  have ub: "unat (fp_base fsp) =
           (if sysupgrade
            then (unat (fp_base ?fw) + length kernel_file) mod 2 ^ 32
            else ((unat (fp_base ?fw) + length kernel_file + 0xFFFF) div 0x10000 * 0x10000) mod 2 ^ 32)"
    by (simp only: base unat_ucast_u64_u32 s a if_distrib [of unat] cong: if_cong)
  show ?thesis
    using nm fit n1 n2 name ub by simp
qed

text \<open>What the code stores as the size of the file-system entry: the size of the
  firmware partition minus the base of the file-system entry, on 32 bits.\<close>

lemma build_image_split_size:
  assumes "build_image_split (Some kernel_file) sysupgrade idx info = Inr (info', fsp)"
  shows "fp_size fsp = fp_size (di_partitions info ! idx) - fp_base fsp"
  using assms by (auto simp: build_image_split_def Let_def split: if_splits)

lemma build_image_split_scenario:
  "build_image_split (Some (replicate 0x150000 0)) False 1 (set_partition_names spec_scenario_profile)
   = Inr ((set_partition_names spec_scenario_profile)
            \<lparr>di_partitions :=
               [\<lparr>fp_name = ''fs-uboot'', fp_base = 0, fp_size = 0x20000\<rparr>,
                \<lparr>fp_name = ''os-image'', fp_base = 0x40000, fp_size = 0x150000\<rparr>,
                \<lparr>fp_name = ''file-system'', fp_base = 0x190000, fp_size = 0x5E0000\<rparr>,
                \<lparr>fp_name = ''soft-version'', fp_base = 0x7b0000, fp_size = 0x100\<rparr>,
                \<lparr>fp_name = ''support-list'', fp_base = 0x7b1000, fp_size = 0x400\<rparr>]\<rparr>,
          \<lparr>fp_name = ''file-system'', fp_base = 0x190000, fp_size = 0x5E0000\<rparr>)"
  by (simp add: build_image_split_def set_partition_names_def spec_scenario_profile_def
        Let_def ALIGN_def)

lemma find_firmware_partition_scenario:
  "find_firmware_partition (di_partitions (set_partition_names spec_scenario_profile)) 0 None
     = Some 1"
  by (simp add: set_partition_names_def spec_scenario_profile_def Let_def)

theorem build_image_split_base_witness:
  "find_firmware_partition (di_partitions (set_partition_names spec_scenario_profile)) 0 None
     = Some 1
   \<and> build_image_split (Some (replicate 0x150000 0)) False 1
        (set_partition_names spec_scenario_profile)
     = Inr ((set_partition_names spec_scenario_profile)
              \<lparr>di_partitions :=
                 [\<lparr>fp_name = ''fs-uboot'', fp_base = 0, fp_size = 0x20000\<rparr>,
                  \<lparr>fp_name = ''os-image'', fp_base = 0x40000, fp_size = 0x150000\<rparr>,
                  \<lparr>fp_name = ''file-system'', fp_base = 0x190000, fp_size = 0x5E0000\<rparr>,
                  \<lparr>fp_name = ''soft-version'', fp_base = 0x7b0000, fp_size = 0x100\<rparr>,
                  \<lparr>fp_name = ''support-list'', fp_base = 0x7b1000, fp_size = 0x400\<rparr>]\<rparr>,
            \<lparr>fp_name = ''file-system'', fp_base = 0x190000, fp_size = 0x5E0000\<rparr>)
   \<and> unat (0x190000 :: u32) = (0x40000 + 0x150000 + 0xFFFF) div 0x10000 * 0x10000 mod 2 ^ 32"
  using build_image_split_base [OF find_firmware_partition_scenario build_image_split_scenario]
    find_firmware_partition_scenario build_image_split_scenario
  by simp

text \<open>C7 as stated fails in its scenario: the file-system entry gets the base 0x190000,
  not 0x1a0000.\<close>

theorem build_image_split_scenario_base:
  "(case build_image_split (Some (replicate 0x150000 0)) False 1
           (set_partition_names spec_scenario_profile) of
      Inl e \<Rightarrow> None
    | Inr (info', fsp) \<Rightarrow> Some (fp_base fsp)) = Some 0x190000
   \<and> (0x190000 :: u32) \<noteq> 0x1a0000"
  unfolding build_image_split_scenario by simp

text \<open>
  C2 on the code, at the board CPE210 (firmware at 0x40000 with 0x770000 bytes) and a
  kernel of 0x123456 bytes in a factory build: the file-system entry starts at 0x170000 and
  gets the size 0x770000 - 0x170000 = 0x600000, so it ends at 0x770000. The firmware
  partition ends at 0x7b0000, and the size of the claim is
  0x770000 - (0x170000 - 0x40000) = 0x640000. The os-image entry has the kernel size.
\<close>

theorem build_image_split_cpe210:
  "find_firmware_partition (di_partitions (set_partition_names CPE210)) 0 None = Some 5
   \<and> (case build_image_split (Some (replicate 0x123456 0)) False 5 (set_partition_names CPE210) of
        Inl e \<Rightarrow> None
      | Inr (info', fsp) \<Rightarrow> Some (di_partitions info' ! 5, fsp))
     = Some (\<lparr>fp_name = ''os-image'', fp_base = 0x40000, fp_size = 0x123456\<rparr>,
             \<lparr>fp_name = ''file-system'', fp_base = 0x170000, fp_size = 0x600000\<rparr>)
   \<and> (0x770000 - (0x170000 - 0x40000) :: u32) = 0x640000"
  by (simp add: build_image_split_def set_partition_names_def CPE210_def Let_def ALIGN_def)

section \<open>The image partition table and the factory image\<close>

lemma memcpy_append:
  "length a = off \<Longrightarrow> length src \<le> length b \<Longrightarrow>
   memcpy (a @ b) off src = Inr (a @ src @ drop (length src) b)"
  by (simp add: memcpy_def)


lemma parts_data_Cons: "parts_data (p # ps) = take (ip_size p) (ip_data p) @ parts_data ps"
  by (simp add: parts_data_def)


text \<open>One round of the loop of \<^verbatim>\<open>put_partitions\<close>, on a buffer cut into the table text
  written so far (\<open>tx\<close>), the rest of the table region (\<open>X\<close>), the partition bytes written
  so far (\<open>dn\<close>) and the rest.\<close>

lemma put_partitions_loop_step:
  assumes tx: "length tx = image_pt"
      and X: "length X = 0x800 - image_pt"
      and pt: "image_pt \<le> 0x7FF"
      and okp: "part_ok flash_parts p"
      and base: "base = 0x800 + length dn"
      and r1: "ip_size p \<le> length rest"
  shows "put_partitions_loop flash_parts (tx @ X @ dn @ rest) image_pt base (p # ps) =
           (if length (fmt_fwup_ptn (ip_name p) (of_nat base) (of_nat (ip_size p))) \<le> 0x7FF - image_pt
            then put_partitions_loop flash_parts
                   ((tx @ cstr (fmt_fwup_ptn (ip_name p) (of_nat base) (of_nat (ip_size p))))
                    @ (0 # drop (length (fmt_fwup_ptn (ip_name p) (of_nat base) (of_nat (ip_size p))) + 1) X)
                    @ (dn @ take (ip_size p) (ip_data p)) @ drop (ip_size p) rest)
                   (image_pt + length (fmt_fwup_ptn (ip_name p) (of_nat base) (of_nat (ip_size p))))
                   (base + ip_size p) ps
            else Inl (Exit ''image partition table overflow?''))"
proof -
  let ?str = "fmt_fwup_ptn (ip_name p) (of_nat base) (of_nat (ip_size p))"
  let ?w = "length ?str"
  let ?data = "take (ip_size p) (ip_data p)"
  let ?X' = "0 # drop (?w + 1) X"
  from okp obtain f where f: "find (\<lambda>f. fp_name f = ip_name p) flash_parts = Some f"
    and sz: "ip_size p \<le> unat (fp_size f)" and dl: "ip_size p \<le> length (ip_data p)"
    by (auto simp: part_ok_def split: option.splits)
  have ld: "length ?data = ip_size p" using dl by simp
  have lbuf: "length (tx @ X @ dn) = base"
    using tx X pt base by simp
  have mc: "memcpy (tx @ X @ dn @ rest) base ?data = Inr (tx @ X @ dn @ ?data @ drop (ip_size p) rest)"
  proof -
    have "memcpy ((tx @ X @ dn) @ rest) base ?data
            = Inr ((tx @ X @ dn) @ ?data @ drop (length ?data) rest)"
      by (rule memcpy_append) (use lbuf r1 ld in simp_all)
    then show ?thesis using dl by (simp add: min_absorb2)
  qed
  have len: "SAFELOADER_PAYLOAD_TABLE_SIZE - image_pt = 0x800 - image_pt"
    by (simp add: SAFELOADER_PAYLOAD_TABLE_SIZE_def)
  have lenpos: "0x800 - image_pt \<noteq> 0" using pt by simp
  have pred: "size_t_pred (0x800 - image_pt) = 0x7FF - image_pt"
    using pt by (simp add: size_t_pred_def)
  show ?thesis
  proof (cases "?w \<le> 0x7FF - image_pt")
    case False
    then show ?thesis
      using f sz dl mc by (simp add: Let_def len pred)
  next
    case True
    have wX: "?w + 1 \<le> length X" using True X pt by simp
    have sn: "snprintf (tx @ X @ dn @ ?data @ drop (ip_size p) rest) image_pt (0x800 - image_pt) ?str
                = (tx @ cstr ?str) @ ?X' @ (dn @ ?data) @ drop (ip_size p) rest"
    proof -
      have t: "take (0x7FF - image_pt) (cstr ?str) = cstr ?str"
        using True by simp
      have "overwrite (tx @ (X @ dn @ ?data @ drop (ip_size p) rest)) image_pt (cstr ?str @ [0])
              = tx @ (cstr ?str @ [0])
                @ drop (length (cstr ?str @ [0])) (X @ dn @ ?data @ drop (ip_size p) rest)"
        by (rule overwrite_append) (use tx wX in simp_all)
      then show ?thesis
        using lenpos wX by (simp add: snprintf_def t)
    qed
    show ?thesis
      using True f sz dl mc sn by (simp add: Let_def len pred)
  qed
qed

text \<open>The loop on partitions that all pass the checks: the lines and a NUL go to the
  table region, whose other bytes stay, and the bytes of the partitions follow one
  another; when the lines and the NUL do not fit, the run ends with the error.\<close>

lemma put_partitions_loop_closed:
  assumes "length tx = image_pt"
      and "length X = 0x800 - image_pt"
      and "image_pt \<le> 0x7FF"
      and "list_all (part_ok flash_parts) parts"
      and "base = 0x800 + length dn"
      and "sum_list (map ip_size parts) \<le> length rest"
  shows "put_partitions_loop flash_parts (tx @ X @ dn @ rest) image_pt base parts =
           (if image_pt + length (fwup_table base parts) \<le> 0x7FF
            then Inr (tx @ cstr (fwup_table base parts)
                      @ (if parts = [] then X else 0 # drop (length (fwup_table base parts) + 1) X)
                      @ dn @ parts_data parts @ drop (sum_list (map ip_size parts)) rest)
            else Inl (Exit ''image partition table overflow?''))"
  using assms
proof (induction parts arbitrary: tx X image_pt base dn rest)
  case Nil
  then show ?case by (simp add: parts_data_def cstr_def)
next
  case (Cons p ps)
  let ?str = "fmt_fwup_ptn (ip_name p) (of_nat base) (of_nat (ip_size p))"
  let ?w = "length ?str"
  let ?data = "take (ip_size p) (ip_data p)"
  let ?X' = "0 # drop (?w + 1) X"
  from Cons.prems(4) have okp: "part_ok flash_parts p" and oks: "list_all (part_ok flash_parts) ps"
    by simp_all
  from okp have dl: "ip_size p \<le> length (ip_data p)"
    by (auto simp: part_ok_def split: option.splits)
  have ld: "length ?data = ip_size p" using dl by simp
  from Cons.prems(6) have r1: "ip_size p \<le> length rest"
    and r2: "sum_list (map ip_size ps) \<le> length (drop (ip_size p) rest)" by simp_all
  note step = put_partitions_loop_step [OF Cons.prems(1,2,3) okp Cons.prems(5) r1, of ps]
  show ?case
  proof (cases "?w \<le> 0x7FF - image_pt")
    case False
    then have "\<not> image_pt + length (fwup_table base (p # ps)) \<le> 0x7FF" by simp
    with False show ?thesis unfolding step by (simp only: if_False)
  next
    case True
    have wX: "?w + 1 \<le> length X" using True Cons.prems(2,3) by simp
    have ih: "put_partitions_loop flash_parts
                ((tx @ cstr ?str) @ ?X' @ (dn @ ?data) @ drop (ip_size p) rest)
                (image_pt + ?w) (base + ip_size p) ps =
           (if (image_pt + ?w) + length (fwup_table (base + ip_size p) ps) \<le> 0x7FF
            then Inr ((tx @ cstr ?str) @ cstr (fwup_table (base + ip_size p) ps)
                      @ (if ps = [] then ?X'
                         else 0 # drop (length (fwup_table (base + ip_size p) ps) + 1) ?X')
                      @ (dn @ ?data) @ parts_data ps
                      @ drop (sum_list (map ip_size ps)) (drop (ip_size p) rest))
            else Inl (Exit ''image partition table overflow?''))"
    proof (rule Cons.IH)
      show "length (tx @ cstr ?str) = image_pt + ?w" using Cons.prems(1) by simp
      show "length ?X' = 0x800 - (image_pt + ?w)" using wX Cons.prems(2) by simp
      show "image_pt + ?w \<le> 0x7FF" using True Cons.prems(3) by simp
      show "list_all (part_ok flash_parts) ps" by (rule oks)
      show "base + ip_size p = 0x800 + length (dn @ ?data)" using Cons.prems(5) ld by simp
      show "sum_list (map ip_size ps) \<le> length (drop (ip_size p) rest)" by (rule r2)
    qed
    have X'': "(if ps = [] then ?X' else 0 # drop (length (fwup_table (base + ip_size p) ps) + 1) ?X')
                = 0 # drop (length (fwup_table base (p # ps)) + 1) X"
      by (simp add: add.commute add.left_commute)
    show ?thesis
      unfolding step if_P [OF True] ih X''
      by (simp add: parts_data_Cons add.assoc add.commute [of "ip_size p"])
  qed
qed




lemma put_partitions_closed:
  assumes ok: "list_all (part_ok flash_parts) parts"
      and n: "n = sum_list (map ip_size parts)"
  shows "put_partitions (replicate 0x800 0xff @ replicate n 0xff) flash_parts parts =
           (if length (fwup_table 0x800 parts) \<le> 0x7FF
            then Inr (table_region parts @ parts_data parts)
            else Inl (Exit ''image partition table overflow?''))"
proof -
  have "put_partitions_loop flash_parts ([] @ replicate 0x800 0xff @ [] @ replicate n 0xff) 0 0x800 parts =
           (if 0 + length (fwup_table 0x800 parts) \<le> 0x7FF
            then Inr ([] @ cstr (fwup_table 0x800 parts)
                      @ (if parts = [] then replicate 0x800 0xff
                         else 0 # drop (length (fwup_table 0x800 parts) + 1) (replicate 0x800 0xff))
                      @ [] @ parts_data parts @ drop (sum_list (map ip_size parts)) (replicate n 0xff))
            else Inl (Exit ''image partition table overflow?''))"
    by (rule put_partitions_loop_closed) (use ok n in simp_all)
  moreover have "parts = [] \<Longrightarrow> cstr (fwup_table 0x800 parts) = []"
    by (simp add: cstr_def)
  ultimately show ?thesis
    by (auto simp: put_partitions_def SAFELOADER_PAYLOAD_TABLE_SIZE_def table_region_def n)
qed






section \<open>The image partition table\<close>

lemma replicate_numeral: "replicate (numeral k) x = x # replicate (pred_numeral k) x"
  by (simp add: numeral_eq_Suc)

lemmas fmt_eval = fmt_fwup_ptn_def fmt_partition_def fmt_05x_def hex_of.simps hex_digit_def Let_def
  replicate_numeral

lemma fmt_05x_800: "fmt_05x 0x800 = ''00800''"
  by (simp add: fmt_eval)

lemma fmt_05x_big: "fmt_05x 0x113b45 = ''113b45''"
  by (simp add: fmt_eval)

lemma fwup_table_one: "fwup_table 0x800 one_part = ''fwup-ptn os-image base 0x00800 size 0x00003'' @ [CHR 0x09, CHR 0x0D, CHR 0x0A]"
  by (simp add: one_part_def fmt_eval)

lemma ok_one: "list_all (part_ok one_flash) one_part"
  by (simp add: one_flash_def one_part_def part_ok_def)

lemma put_partitions_one:
  "put_partitions (replicate 0x800 0xff @ replicate 3 0xff) one_flash one_part =
       Inr (cstr ''fwup-ptn os-image base 0x00800 size 0x00003'' @ [0x09, 0x0D, 0x0A]
            @ 0 # replicate 2001 0xff @ [1, 2, 3])"
proof -
  have ne: "one_part \<noteq> []" and pd: "parts_data one_part = [1, 2, 3]"
    and sm: "sum_list (map ip_size one_part) = 3"
    by (simp_all add: one_part_def parts_data_def)
  show ?thesis
    using put_partitions_closed [OF ok_one refl]
    by (simp add: table_region_def fwup_table_one ne pd sm cstr_def)
qed

text \<open>
  C3, as amended. \<^verbatim>\<open>put_partitions\<close> is given the image from the payload offset on, filled
  with 0xff: the table region of 0x800 bytes and the room for the partitions. When every
  partition passes the checks against the flash partitions, it writes from the first byte
  of the region one line \<^verbatim>\<open>"fwup-ptn <name> base 0x<hex> size 0x<hex>\t\r\n"\<close> for each
  partition, in the order supplied, then one NUL byte after the last line, and leaves the
  rest of the region 0xff (the whole region when there is no partition); the bytes of the
  partitions follow the region. When the lines and the NUL do not fit the region, the run
  ends with the error \<^verbatim>\<open>image partition table overflow?\<close>. No magic header is written:
  the bytes 00 04 00 00 begin the flash partition table that \<^verbatim>\<open>make_partition_table\<close>
  builds, the content of the partition named partition-table.
\<close>

theorem put_partitions_table:
  assumes "list_all (part_ok flash_parts) parts"
  shows "put_partitions (replicate 0x800 0xff @ replicate (sum_list (map ip_size parts)) 0xff)
           flash_parts parts =
           (if length (fwup_table 0x800 parts) \<le> 0x7FF
            then Inr ((if parts = [] then replicate 0x800 0xff
                       else cstr (fwup_table 0x800 parts)
                            @ 0 # replicate (0x7FF - length (fwup_table 0x800 parts)) 0xff)
                      @ parts_data parts)
            else Inl (Exit ''image partition table overflow?''))"
  using put_partitions_closed [OF assms refl] by (simp add: table_region_def)

text \<open>One partition named os-image of three bytes: the line, the NUL, 0xff up to the end of
  the region, and the three bytes.\<close>

theorem put_partitions_table_witness:
  "list_all (part_ok one_flash) one_part
   \<and> put_partitions (replicate 0x800 0xff @ replicate 3 0xff) one_flash one_part =
       Inr (cstr ''fwup-ptn os-image base 0x00800 size 0x00003'' @ [0x09, 0x0D, 0x0A]
            @ 0 # replicate 2001 0xff @ [1, 2, 3])"
proof -
  have ne: "one_part \<noteq> []" and pd: "parts_data one_part = [1, 2, 3]"
    and sm: "sum_list (map ip_size one_part) = 3"
    by (simp_all add: one_part_def parts_data_def)
  show ?thesis
    using put_partitions_table [OF ok_one] ok_one
    by (simp add: fwup_table_one ne pd sm cstr_def)
qed

text \<open>C3 as stated fails at the first four bytes of the region: for the one partition
  they are the characters \<^verbatim>\<open>fwup\<close> (66 77 75 70), not 00 04 00 00.\<close>

theorem put_partitions_no_magic:
  "map_sum id (take 4) (put_partitions (replicate 0x800 0xff @ replicate 3 0xff) one_flash one_part)
     = Inr [0x66, 0x77, 0x75, 0x70]
   \<and> [0x66, 0x77, 0x75, 0x70] \<noteq> [0x00, 0x04, 0x00, 0x00 :: u8]"
  by (simp add: put_partitions_one cstr_def)

section \<open>The flash partition table\<close>






section \<open>The factory image of a build\<close>
























end
